theory Spec2Isabelle
  imports Main "HOL-Library.Word" "HOL-Library.Stream"
begin

section \<open>C++ values used by \<^verbatim>\<open>main.cpp\<close>\<close>

text \<open>
  \<^verbatim>\<open>int\<close> is a 32-bit machine integer read as signed (\<open>sint\<close>), \<^verbatim>\<open>std::time_t\<close> a
  64-bit one, \<^verbatim>\<open>std::string\<close> a \<open>string\<close> and \<^verbatim>\<open>std::vector\<close> a list.

  The private constructors of \<^verbatim>\<open>Result\<close> value-initialise the unused slot
  (\<^verbatim>\<open>mError()\<close>, \<^verbatim>\<open>mValue()\<close>) and \<^verbatim>\<open>MutableResult::Success\<close> passes \<^verbatim>\<open>{}\<close> for the
  error. Value-initialisation depends on the type only, so it is the constant \<open>default\<close>
  of the type class \<open>default\<close>: zero for arithmetic types, \<^verbatim>\<open>false\<close> for \<^verbatim>\<open>bool\<close>, the
  empty string and the empty vector, and member-wise for the aggregate structs.
\<close>

type_synonym cpp_int = "32 word"
type_synonym time_t = "64 word"

instantiation bool :: default
begin
definition default_bool_def: "default = False"
instance ..
end

instantiation list :: (type) default
begin
definition default_list_def: "default = ([] :: 'a list)"
instance ..
end

instantiation word :: (len) default
begin
definition default_word_def: "default = (0 :: 'a word)"
instance ..
end

section \<open>\<^verbatim>\<open>Result<ValueType, ErrorType>\<close> (lines 7--69)\<close>

text \<open>
  The class keeps a boolean tag and both payload slots at all times, so it is a record
  with the three private members, in their order of declaration.
\<close>

record ('v, 'e) Result =
  mIsSuccess :: bool
  mValue :: 'v
  mError :: 'e

text \<open>
  The two factories forward to the private constructors of lines 51--64, which are
  selected by \<^verbatim>\<open>std::is_convertible_v\<close> on the argument's type. The factories are taken at
  the argument types they are written for: a \<^verbatim>\<open>ValueType\<close> for \<^verbatim>\<open>Success\<close>, an
  \<^verbatim>\<open>ErrorType\<close> for \<^verbatim>\<open>Failure\<close>, the two types not convertible to one another, as in
  every use the source makes of them. The first constructor then serves \<^verbatim>\<open>Success\<close> and
  the second \<^verbatim>\<open>Failure\<close>.
\<close>

definition Result_Success :: "'v \<Rightarrow> ('v, 'e::default) Result" where
  "Result_Success val = \<lparr>Result.mIsSuccess = True, Result.mValue = val, Result.mError = default\<rparr>"

definition Result_Failure :: "'e \<Rightarrow> ('v::default, 'e) Result" where
  "Result_Failure err = \<lparr>Result.mIsSuccess = False, Result.mValue = default, Result.mError = err\<rparr>"

definition Result_IsSuccess :: "('v, 'e) Result \<Rightarrow> bool" where
  "Result_IsSuccess this = Result.mIsSuccess this"

definition Result_Value :: "('v, 'e) Result \<Rightarrow> 'v" where
  "Result_Value this = Result.mValue this"

definition Result_Error :: "('v, 'e) Result \<Rightarrow> 'e" where
  "Result_Error this = Result.mError this"


definition Result_Bind ::
  "('v, 'e) Result \<Rightarrow> ('v \<Rightarrow> 's \<Rightarrow> ('u::default, 'e) Result \<times> 's) \<Rightarrow> 's \<Rightarrow> ('u, 'e) Result \<times> 's" where
  "Result_Bind this func s =
     (if Result.mIsSuccess this then func (Result.mValue this) s
      else (Result_Failure (Result.mError this), s))"

text \<open>
  The chained expression \<^verbatim>\<open>Success(x).Bind(f1).Bind(f2).Bind(f3)\<close>: each call is made on
  the object the previous call returned, in the state the previous call left.
\<close>

definition Bind_chain3 ::
  "'a \<Rightarrow> ('a \<Rightarrow> 's \<Rightarrow> ('b::default, 'e::default) Result \<times> 's) \<Rightarrow>
   ('b \<Rightarrow> 's \<Rightarrow> ('c::default, 'e) Result \<times> 's) \<Rightarrow>
   ('c \<Rightarrow> 's \<Rightarrow> ('d::default, 'e) Result \<times> 's) \<Rightarrow> 's \<Rightarrow> ('d, 'e) Result \<times> 's" where
  "Bind_chain3 x f1 f2 f3 s0 =
     (let (r1, s1) = Result_Bind (Result_Success x) f1 s0;
          (r2, s2) = Result_Bind r1 f2 s1
      in Result_Bind r2 f3 s2)"



section \<open>\<^verbatim>\<open>MutableResult<ValueType, ErrorType>\<close> (lines 71--121)\<close>

text \<open>
  The success payload lives in a cell on the heap that every copy of the object shares, so
  the heap is explicit: a list of cells, an address being an index into it. A
  \<^verbatim>\<open>std::shared_ptr<ValueType>\<close> is either \<^verbatim>\<open>nullptr\<close> or the address of a cell.
  \<^verbatim>\<open>std::make_shared\<close> appends a fresh cell. Dereferencing \<^verbatim>\<open>nullptr\<close> is undefined
  behaviour in C++ and is a fault of the model, and so is dereferencing an address that
  the heap does not hold.
\<close>

type_synonym addr = nat
type_synonym 'v heap = "'v list"

datatype 'v shared_ptr = nullptr | Ptr addr

datatype fault = NullDereference | InvalidAddress

definition make_shared :: "'v \<Rightarrow> 'v heap \<Rightarrow> 'v shared_ptr \<times> 'v heap" where
  "make_shared val h = (Ptr (length h), h @ [val])"

fun deref :: "'v heap \<Rightarrow> 'v shared_ptr \<Rightarrow> fault + 'v" where
  "deref h nullptr = Inl NullDereference"
| "deref h (Ptr a) = (if a < length h then Inr (h ! a) else Inl InvalidAddress)"

text \<open>A write through the reference \<^verbatim>\<open>*p\<close>; it is only made after \<^verbatim>\<open>*p\<close> was read.\<close>

fun assign :: "'v heap \<Rightarrow> 'v shared_ptr \<Rightarrow> 'v \<Rightarrow> 'v heap" where
  "assign h nullptr v = h"
| "assign h (Ptr a) v = h[a := v]"

text \<open>The conversion of a \<^verbatim>\<open>shared_ptr\<close> to \<^verbatim>\<open>bool\<close> in \<^verbatim>\<open>mIsSuccess && mValue\<close>.\<close>

fun to_bool :: "'v shared_ptr \<Rightarrow> bool" where
  "to_bool nullptr = False"
| "to_bool (Ptr a) = True"

record ('v, 'e) MutableResult =
  mValue :: "'v shared_ptr"
  mError :: 'e
  mIsSuccess :: bool

definition MutableResult_Success ::
  "'v \<Rightarrow> 'v heap \<Rightarrow> ('v, 'e::default) MutableResult \<times> 'v heap" where
  "MutableResult_Success val h =
     (let (p, h') = make_shared val h
      in (\<lparr>MutableResult.mValue = p, MutableResult.mError = default,
           MutableResult.mIsSuccess = True\<rparr>, h'))"

definition MutableResult_Failure :: "'e \<Rightarrow> ('v, 'e) MutableResult" where
  "MutableResult_Failure err =
     \<lparr>MutableResult.mValue = nullptr, MutableResult.mError = err,
      MutableResult.mIsSuccess = False\<rparr>"

text \<open>
  \<^verbatim>\<open>InPlaceBind\<close> and \<^verbatim>\<open>ReadOnlyBind\<close> call \<^verbatim>\<open>func(*mValue)\<close>. In both, \<^verbatim>\<open>*mValue\<close> is
  an lvalue of type \<^verbatim>\<open>ValueType&\<close>: \<^verbatim>\<open>std::shared_ptr<T>::operator*\<close> is a \<^verbatim>\<open>const\<close>
  member that returns \<^verbatim>\<open>T&\<close>, so the \<^verbatim>\<open>const\<close> of \<^verbatim>\<open>ReadOnlyBind\<close> makes the pointer
  constant, not the cell it points to. A callable given to either can therefore assign to
  the cell, and can act on the outside world \<open>'s\<close> as a step function of \<^verbatim>\<open>Bind\<close> can: it
  is a function of the cell's contents and the state that returns the new contents and
  the new state. Both return \<^verbatim>\<open>*this\<close>.
\<close>

definition MutableResult_InPlaceBind ::
  "('v, 'e) MutableResult \<Rightarrow> ('v \<Rightarrow> 's \<Rightarrow> 'v \<times> 's) \<Rightarrow> 'v heap \<Rightarrow> 's \<Rightarrow>
   fault + (('v, 'e) MutableResult \<times> 'v heap \<times> 's)" where
  "MutableResult_InPlaceBind this func h s =
     (if MutableResult.mIsSuccess this \<and> to_bool (MutableResult.mValue this) then
        (case deref h (MutableResult.mValue this) of
           Inl flt \<Rightarrow> Inl flt
         | Inr v \<Rightarrow>
             (let (v', s') = func v s
              in Inr (this, assign h (MutableResult.mValue this) v', s')))
      else Inr (this, h, s))"

definition MutableResult_ReadOnlyBind ::
  "('v, 'e) MutableResult \<Rightarrow> ('v \<Rightarrow> 's \<Rightarrow> 'v \<times> 's) \<Rightarrow> 'v heap \<Rightarrow> 's \<Rightarrow>
   fault + (('v, 'e) MutableResult \<times> 'v heap \<times> 's)" where
  "MutableResult_ReadOnlyBind this func h s =
     (if MutableResult.mIsSuccess this \<and> to_bool (MutableResult.mValue this) then
        (case deref h (MutableResult.mValue this) of
           Inl flt \<Rightarrow> Inl flt
         | Inr v \<Rightarrow>
             (let (v', s') = func v s
              in Inr (this, assign h (MutableResult.mValue this) v', s')))
      else Inr (this, h, s))"

definition MutableResult_Value :: "('v, 'e) MutableResult \<Rightarrow> 'v heap \<Rightarrow> fault + 'v" where
  "MutableResult_Value this h = deref h (MutableResult.mValue this)"

definition MutableResult_Error :: "('v, 'e) MutableResult \<Rightarrow> 'e" where
  "MutableResult_Error this = MutableResult.mError this"

definition MutableResult_IsSuccess :: "('v, 'e) MutableResult \<Rightarrow> bool" where
  "MutableResult_IsSuccess this = MutableResult.mIsSuccess this"

text \<open>
  The chained expression \<^verbatim>\<open>m.InPlaceBind(f).InPlaceBind(g)\<close>: the second call is made
  on the reference the first one returned, on the heap and in the state it left.
\<close>

definition InPlaceBind_chain2 ::
  "('v, 'e) MutableResult \<Rightarrow> ('v \<Rightarrow> 's \<Rightarrow> 'v \<times> 's) \<Rightarrow> ('v \<Rightarrow> 's \<Rightarrow> 'v \<times> 's) \<Rightarrow>
   'v heap \<Rightarrow> 's \<Rightarrow> fault + (('v, 'e) MutableResult \<times> 'v heap \<times> 's)" where
  "InPlaceBind_chain2 this f g h s =
     (case MutableResult_InPlaceBind this f h s of
        Inl flt \<Rightarrow> Inl flt
      | Inr (this', h', s') \<Rightarrow> MutableResult_InPlaceBind this' g h' s')"







section \<open>The manuscript pipeline (lines 123--263)\<close>

record Manuscript =
  id :: cpp_int
  title :: string
  content :: string
  author :: string
  submission_date :: time_t

record EditedManuscript =
  id :: cpp_int
  title :: string
  content :: string
  author :: string
  editorial_notes :: "string list"
  edit_date :: time_t

record FormattedManuscript =
  id :: cpp_int
  title :: string
  formatted_content :: string
  author :: string
  format_type :: string
  format_date :: time_t

record ReviewedManuscript =
  id :: cpp_int
  title :: string
  formatted_content :: string
  author :: string
  approved :: bool
  review_comments :: "string list"
  review_date :: time_t

record PublishedManuscript =
  id :: cpp_int
  title :: string
  formatted_content :: string
  author :: string
  isbn :: string
  publish_date :: time_t

text \<open>Value-initialisation of the five aggregates, member by member.\<close>

instantiation Manuscript_ext :: (default) default
begin
definition default_Manuscript_ext_def:
  "default = \<lparr>Manuscript.id = default, Manuscript.title = default,
     Manuscript.content = default, Manuscript.author = default,
     Manuscript.submission_date = default, \<dots> = default\<rparr>"
instance ..
end

instantiation EditedManuscript_ext :: (default) default
begin
definition default_EditedManuscript_ext_def:
  "default = \<lparr>EditedManuscript.id = default, EditedManuscript.title = default,
     EditedManuscript.content = default, EditedManuscript.author = default,
     EditedManuscript.editorial_notes = default, EditedManuscript.edit_date = default,
     \<dots> = default\<rparr>"
instance ..
end

instantiation FormattedManuscript_ext :: (default) default
begin
definition default_FormattedManuscript_ext_def:
  "default = \<lparr>FormattedManuscript.id = default, FormattedManuscript.title = default,
     FormattedManuscript.formatted_content = default, FormattedManuscript.author = default,
     FormattedManuscript.format_type = default, FormattedManuscript.format_date = default,
     \<dots> = default\<rparr>"
instance ..
end

instantiation ReviewedManuscript_ext :: (default) default
begin
definition default_ReviewedManuscript_ext_def:
  "default = \<lparr>ReviewedManuscript.id = default, ReviewedManuscript.title = default,
     ReviewedManuscript.formatted_content = default, ReviewedManuscript.author = default,
     ReviewedManuscript.approved = default, ReviewedManuscript.review_comments = default,
     ReviewedManuscript.review_date = default, \<dots> = default\<rparr>"
instance ..
end

instantiation PublishedManuscript_ext :: (default) default
begin
definition default_PublishedManuscript_ext_def:
  "default = \<lparr>PublishedManuscript.id = default, PublishedManuscript.title = default,
     PublishedManuscript.formatted_content = default, PublishedManuscript.author = default,
     PublishedManuscript.isbn = default, PublishedManuscript.publish_date = default,
     \<dots> = default\<rparr>"
instance ..
end

text \<open>
  Every stage that succeeds reads the clock with \<^verbatim>\<open>std::time(nullptr)\<close>. The world a stage
  acts on is the sequence of values the clock will return: a call takes the head and
  leaves the tail.
\<close>

type_synonym world = "time_t stream"

definition std_time :: "world \<Rightarrow> time_t \<times> world" where
  "std_time w = (shd w, stl w)"

text \<open>
  \<^verbatim>\<open>std::to_string(int)\<close> of the C++ standard library: the decimal digits of the value,
  after a minus sign when it is negative.
\<close>

definition digit_char :: "nat \<Rightarrow> char" where
  "digit_char d = ''0123456789'' ! d"

fun decimal :: "nat \<Rightarrow> string" where
  "decimal n = (if n < 10 then [digit_char n] else decimal (n div 10) @ [digit_char (n mod 10)])"

declare decimal.simps [simp del]

definition to_string :: "cpp_int \<Rightarrow> string" where
  "to_string val =
     (if sint val < 0 then CHR ''-'' # decimal (nat (- sint val)) else decimal (nat (sint val)))"

definition FetchManuscript :: "cpp_int \<Rightarrow> world \<Rightarrow> (Manuscript, string) Result \<times> world" where
  "FetchManuscript manuscriptId w =
     (if sint manuscriptId \<le> 0 then (Result_Failure ''Invalid manuscript ID'', w)
      else
        (let (now, w') = std_time w;
             m = \<lparr>Manuscript.id = manuscriptId,
                  Manuscript.title = ''The Art of Programming'',
                  Manuscript.content = ''Initial content...'',
                  Manuscript.author = ''John Doe'',
                  Manuscript.submission_date = now\<rparr>
         in (Result_Success m, w')))"

definition EditManuscript ::
  "Manuscript \<Rightarrow> world \<Rightarrow> (EditedManuscript, string) Result \<times> world" where
  "EditManuscript m w =
     (if Manuscript.content m = [] then (Result_Failure ''Empty manuscript content'', w)
      else
        (let (now, w') = std_time w;
             em = \<lparr>EditedManuscript.id = Manuscript.id m,
                   EditedManuscript.title = Manuscript.title m,
                   EditedManuscript.content =
                     Manuscript.content m @ CHR 0x0A # ''Edited content...'',
                   EditedManuscript.author = Manuscript.author m,
                   EditedManuscript.editorial_notes = [''Fixed grammar'', ''Improved structure''],
                   EditedManuscript.edit_date = now\<rparr>
         in (Result_Success em, w')))"

definition FormatManuscript ::
  "EditedManuscript \<Rightarrow> world \<Rightarrow> (FormattedManuscript, string) Result \<times> world" where
  "FormatManuscript em w =
     (if EditedManuscript.editorial_notes em = []
      then (Result_Failure ''No editorial notes found'', w)
      else
        (let (now, w') = std_time w;
             fm = \<lparr>FormattedManuscript.id = EditedManuscript.id em,
                   FormattedManuscript.title = EditedManuscript.title em,
                   FormattedManuscript.formatted_content =
                     EditedManuscript.content em
                       @ CHR 0x0A # ''Formatted according to style guide...'',
                   FormattedManuscript.author = EditedManuscript.author em,
                   FormattedManuscript.format_type = ''IEEE'',
                   FormattedManuscript.format_date = now\<rparr>
         in (Result_Success fm, w')))"

definition ReviewManuscript ::
  "FormattedManuscript \<Rightarrow> world \<Rightarrow> (ReviewedManuscript, string) Result \<times> world" where
  "ReviewManuscript fm w =
     (if FormattedManuscript.format_type fm \<noteq> ''IEEE''
      then (Result_Failure ''Invalid format type'', w)
      else
        (let (now, w') = std_time w;
             rm = \<lparr>ReviewedManuscript.id = FormattedManuscript.id fm,
                   ReviewedManuscript.title = FormattedManuscript.title fm,
                   ReviewedManuscript.formatted_content =
                     FormattedManuscript.formatted_content fm,
                   ReviewedManuscript.author = FormattedManuscript.author fm,
                   ReviewedManuscript.approved = True,
                   ReviewedManuscript.review_comments =
                     [''Excellent work'', ''Ready for publication''],
                   ReviewedManuscript.review_date = now\<rparr>
         in (Result_Success rm, w')))"

definition PublishManuscript ::
  "ReviewedManuscript \<Rightarrow> world \<Rightarrow> (PublishedManuscript, string) Result \<times> world" where
  "PublishManuscript rm w =
     (if \<not> ReviewedManuscript.approved rm then (Result_Failure ''Manuscript not approved'', w)
      else
        (let (now, w') = std_time w;
             pm = \<lparr>PublishedManuscript.id = ReviewedManuscript.id rm,
                   PublishedManuscript.title = ReviewedManuscript.title rm,
                   PublishedManuscript.formatted_content =
                     ReviewedManuscript.formatted_content rm,
                   PublishedManuscript.author = ReviewedManuscript.author rm,
                   PublishedManuscript.isbn =
                     ''ISBN-'' @ to_string (ReviewedManuscript.id rm) @ ''-2023'',
                   PublishedManuscript.publish_date = now\<rparr>
         in (Result_Success pm, w')))"

text \<open>The chain that \<^verbatim>\<open>main\<close> builds for the identifier it has read (lines 259--263).\<close>

definition publishingPipeline ::
  "cpp_int \<Rightarrow> world \<Rightarrow> (PublishedManuscript, string) Result \<times> world" where
  "publishingPipeline manuscriptId w0 =
     (let (r0, w1) = FetchManuscript manuscriptId w0;
          (r1, w2) = Result_Bind r0 EditManuscript w1;
          (r2, w3) = Result_Bind r1 FormatManuscript w2;
          (r3, w4) = Result_Bind r2 ReviewManuscript w3
      in Result_Bind r3 PublishManuscript w4)"

section \<open>Properties of \<^verbatim>\<open>Result\<close>\<close>

text \<open>
  Claim C1. \<^verbatim>\<open>Bind\<close> on a failure-tagged \<^verbatim>\<open>Result\<close> holding the error \<open>e\<close> returns the
  failure-tagged \<^verbatim>\<open>Result\<close> holding exactly \<open>e\<close> and does not invoke the step function:
  the state comes back as it went in, whatever the step function would have done to it.
  Consequently, when \<open>f1\<close> fails in \<^verbatim>\<open>Success(x).Bind(f1).Bind(f2).Bind(f3)\<close>, the chain
  ends in a failure holding the error of \<open>f1\<close>, in the state that \<open>f1\<close> left: neither
  \<open>f2\<close> nor \<open>f3\<close> has run.
\<close>

theorem Bind_failure_short_circuit:
  "(\<not> Result_IsSuccess r \<longrightarrow>
      \<not> Result_IsSuccess (fst (Result_Bind r f s)) \<and>
      Result_Error (fst (Result_Bind r f s)) = Result_Error r \<and>
      snd (Result_Bind r f s) = s) \<and>
   (f1 x s0 = (r1, s1) \<and> \<not> Result_IsSuccess r1 \<longrightarrow>
      \<not> Result_IsSuccess (fst (Bind_chain3 x f1 f2 f3 s0)) \<and>
      Result_Error (fst (Bind_chain3 x f1 f2 f3 s0)) = Result_Error r1 \<and>
      snd (Bind_chain3 x f1 f2 f3 s0) = s1)"
proof (intro conjI impI)
  assume fail: "\<not> Result_IsSuccess r"
  then have step: "Result_Bind r f s = (Result_Failure (Result.mError r), s)"
    by (simp add: Result_Bind_def Result_IsSuccess_def)
  show "\<not> Result_IsSuccess (fst (Result_Bind r f s))"
    by (simp add: step Result_IsSuccess_def Result_Failure_def)
  show "Result_Error (fst (Result_Bind r f s)) = Result_Error r"
    by (simp add: step Result_Error_def Result_Failure_def)
  show "snd (Result_Bind r f s) = s"
    by (simp add: step)
next
  assume a: "f1 x s0 = (r1, s1) \<and> \<not> Result_IsSuccess r1"
  then have chain: "Bind_chain3 x f1 f2 f3 s0 = (Result_Failure (Result.mError r1), s1)"
    by (simp add: Bind_chain3_def Result_Bind_def Result_Success_def Result_Failure_def
        Result_IsSuccess_def)
  show "\<not> Result_IsSuccess (fst (Bind_chain3 x f1 f2 f3 s0))"
    by (simp add: chain Result_IsSuccess_def Result_Failure_def)
  show "Result_Error (fst (Bind_chain3 x f1 f2 f3 s0)) = Result_Error r1"
    by (simp add: chain Result_Error_def Result_Failure_def)
  show "snd (Bind_chain3 x f1 f2 f3 s0) = s1"
    by (simp add: chain)
qed

theorem Bind_failure_short_circuit_witness:
  "\<not> Result_IsSuccess (Result_Failure ''boom'' :: (cpp_int, string) Result) \<and>
   \<not> Result_IsSuccess (fst (Result_Bind (Result_Failure ''boom'' :: (cpp_int, string) Result)
        (\<lambda>v n. (Result_Success (v + 1) :: (cpp_int, string) Result, Suc n)) (0::nat))) \<and>
   Result_Error (fst (Result_Bind (Result_Failure ''boom'' :: (cpp_int, string) Result)
        (\<lambda>v n. (Result_Success (v + 1) :: (cpp_int, string) Result, Suc n)) (0::nat))) = ''boom'' \<and>
   snd (Result_Bind (Result_Failure ''boom'' :: (cpp_int, string) Result)
        (\<lambda>v n. (Result_Success (v + 1) :: (cpp_int, string) Result, Suc n)) (0::nat)) = 0 \<and>
   Bind_chain3 (7 :: cpp_int)
     (\<lambda>v (n1, n2, n3). (Result_Failure ''f1 failed'' :: (cpp_int, string) Result, (Suc n1, n2, n3)))
     (\<lambda>v (n1, n2, n3). (Result_Success (v + 1) :: (cpp_int, string) Result, (n1, Suc n2, n3)))
     (\<lambda>v (n1, n2, n3). (Result_Success (v * 2) :: (cpp_int, string) Result, (n1, n2, Suc n3)))
     (0::nat, 0::nat, 0::nat)
   = (Result_Failure ''f1 failed'', (1, 0, 0))"
  using Bind_failure_short_circuit
    [of "Result_Failure ''boom'' :: (cpp_int, string) Result"
        "\<lambda>v n. (Result_Success (v + 1) :: (cpp_int, string) Result, Suc n)" "0::nat"
        "\<lambda>v (n1, n2, n3). (Result_Failure ''f1 failed'' :: (cpp_int, string) Result, (Suc n1, n2, n3))"
        "7 :: cpp_int" "(0::nat, 0::nat, 0::nat)"
        "Result_Failure ''f1 failed''" "(1::nat, 0::nat, 0::nat)"
        "\<lambda>v (n1, n2, n3). (Result_Success (v + 1) :: (cpp_int, string) Result, (n1, Suc n2, n3))"
        "\<lambda>v (n1, n2, n3). (Result_Success (v * 2) :: (cpp_int, string) Result, (n1, n2, Suc n3))"]
  by (simp add: Result_IsSuccess_def Result_Error_def Result_Failure_def Result_Bind_def
      Bind_chain3_def Result_Success_def)

lemma to_string_5: "to_string 5 = ''5''"
  by (simp add: to_string_def decimal.simps [of 5] digit_char_def)

lemma to_string_42: "to_string 42 = ''42''"
  by (simp add: to_string_def decimal.simps [of 42] decimal.simps [of 4] digit_char_def)

text \<open>
  Claim C2. \<^verbatim>\<open>Bind\<close> on a success-tagged \<^verbatim>\<open>Result\<close> is the application of the step
  function to the held value: \<^verbatim>\<open>r.Bind(f) == f(r.Value())\<close>, the result and the effect of
  the call alike, whatever the value type of the \<^verbatim>\<open>Result\<close> that \<open>f\<close> returns.
\<close>

theorem Bind_success_applies:
  "Result_IsSuccess r \<Longrightarrow> Result_Bind r f s = f (Result_Value r) s"
  by (simp add: Result_Bind_def Result_IsSuccess_def Result_Value_def)

theorem Bind_success_applies_witness:
  "Result_IsSuccess (Result_Success 5 :: (cpp_int, string) Result) \<and>
   Result_Bind (Result_Success 5 :: (cpp_int, string) Result)
     (\<lambda>v n. (if v = 0 then Result_Failure ''zero'' else Result_Success (to_string v), Suc n))
     (0::nat)
   = (Result_Success ''5'' :: (string, string) Result, 1)"
proof -
  have tagged: "Result_IsSuccess (Result_Success 5 :: (cpp_int, string) Result)"
    by (simp add: Result_IsSuccess_def Result_Success_def)
  show ?thesis
    using tagged
      Bind_success_applies [OF tagged,
        of "\<lambda>v n. (if v = 0 then Result_Failure ''zero'' else Result_Success (to_string v), Suc n)"
           "0::nat"]
    by (simp add: Result_Value_def Result_Success_def to_string_5)
qed

lemma Bind_Success: "Result_Bind (Result_Success v) f s = f v s"
  by (simp add: Result_Bind_def Result_Success_def)

lemma Bind_Failure: "Result_Bind (Result_Failure e) f s = (Result_Failure e, s)"
  by (simp add: Result_Bind_def Result_Failure_def)

section \<open>The pipeline end to end\<close>

lemma Fetch_positive:
  "0 < sint manuscriptId \<Longrightarrow>
   FetchManuscript manuscriptId w =
     (Result_Success \<lparr>Manuscript.id = manuscriptId,
        Manuscript.title = ''The Art of Programming'',
        Manuscript.content = ''Initial content...'',
        Manuscript.author = ''John Doe'',
        Manuscript.submission_date = shd w\<rparr>, stl w)"
  by (simp add: FetchManuscript_def std_time_def)

lemma Edit_nonempty:
  "Manuscript.content m \<noteq> [] \<Longrightarrow>
   EditManuscript m w =
     (Result_Success \<lparr>EditedManuscript.id = Manuscript.id m,
        EditedManuscript.title = Manuscript.title m,
        EditedManuscript.content = Manuscript.content m @ CHR 0x0A # ''Edited content...'',
        EditedManuscript.author = Manuscript.author m,
        EditedManuscript.editorial_notes = [''Fixed grammar'', ''Improved structure''],
        EditedManuscript.edit_date = shd w\<rparr>, stl w)"
  by (simp add: EditManuscript_def std_time_def)

text \<open>
  A positive identifier passes every stage: each stage's check is met by what the stage
  before it has written, and the five stages read the clock once each.
\<close>

lemma pipeline_positive:
  assumes "0 < sint manuscriptId"
  shows "publishingPipeline manuscriptId w =
     (Result_Success \<lparr>PublishedManuscript.id = manuscriptId,
        PublishedManuscript.title = ''The Art of Programming'',
        PublishedManuscript.formatted_content =
          ''Initial content...'' @ CHR 0x0A # ''Edited content...''
            @ CHR 0x0A # ''Formatted according to style guide...'',
        PublishedManuscript.author = ''John Doe'',
        PublishedManuscript.isbn = ''ISBN-'' @ to_string manuscriptId @ ''-2023'',
        PublishedManuscript.publish_date = shd (stl (stl (stl (stl w))))\<rparr>,
      stl (stl (stl (stl (stl w)))))"
  unfolding publishingPipeline_def Fetch_positive [OF assms]
  by (simp add: Bind_Success Edit_nonempty FormatManuscript_def ReviewManuscript_def
      PublishManuscript_def std_time_def)

text \<open>
  Claim C8. \<^verbatim>\<open>FetchManuscript(42)\<close> succeeds, and the chain through \<^verbatim>\<open>EditManuscript\<close>,
  \<^verbatim>\<open>FormatManuscript\<close>, \<^verbatim>\<open>ReviewManuscript\<close> and \<^verbatim>\<open>PublishManuscript\<close> ends in a success whose
  \<^verbatim>\<open>isbn\<close> is \<^verbatim>\<open>"ISBN-42-2023"\<close>, whatever the clock returns.
\<close>

theorem pipeline_42_publishes:
  "Result_IsSuccess (fst (FetchManuscript 42 w)) \<and>
   Result_IsSuccess (fst (publishingPipeline 42 w)) \<and>
   PublishedManuscript.isbn (Result_Value (fst (publishingPipeline 42 w))) = ''ISBN-42-2023''"
proof -
  have pos: "0 < sint (42 :: cpp_int)" by simp
  show ?thesis
    by (simp add: pipeline_positive [OF pos] Fetch_positive [OF pos] Result_IsSuccess_def
        Result_Value_def Result_Success_def to_string_42)
qed

text \<open>
  Claim C9. \<^verbatim>\<open>FetchManuscript(0)\<close> returns the failure holding
  \<^verbatim>\<open>"Invalid manuscript ID"\<close>, and the chain of the four remaining stages built on it ends
  in a failure holding that same error; no stage has read the clock.
\<close>

theorem pipeline_0_fails:
  "FetchManuscript 0 w = (Result_Failure ''Invalid manuscript ID'', w) \<and>
   \<not> Result_IsSuccess (fst (publishingPipeline 0 w)) \<and>
   Result_Error (fst (publishingPipeline 0 w)) = ''Invalid manuscript ID'' \<and>
   snd (publishingPipeline 0 w) = w"
proof -
  have fetch: "FetchManuscript 0 w = (Result_Failure ''Invalid manuscript ID'', w)"
    by (simp add: FetchManuscript_def)
  have whole: "publishingPipeline 0 w = (Result_Failure ''Invalid manuscript ID'', w)"
    unfolding publishingPipeline_def fetch by (simp add: Bind_Failure)
  show ?thesis
    by (simp add: fetch whole Result_IsSuccess_def Result_Error_def Result_Failure_def)
qed

section \<open>Properties of \<^verbatim>\<open>MutableResult\<close>\<close>

lemma Success_fresh:
  "MutableResult_Success v h =
     (\<lparr>MutableResult.mValue = Ptr (length h), MutableResult.mError = default,
       MutableResult.mIsSuccess = True\<rparr>, h @ [v])"
  by (simp add: MutableResult_Success_def make_shared_def)

lemma InPlaceBind_live:
  assumes "MutableResult.mIsSuccess m" "MutableResult.mValue m = Ptr a" "a < length h"
  shows "MutableResult_InPlaceBind m f h s
           = Inr (m, h[a := fst (f (h ! a) s)], snd (f (h ! a) s))"
  using assms by (simp add: MutableResult_InPlaceBind_def split: prod.splits)


lemma InPlaceBind_failure:
  "\<not> MutableResult.mIsSuccess m \<Longrightarrow> MutableResult_InPlaceBind m f h s = Inr (m, h, s)"
  by (simp add: MutableResult_InPlaceBind_def)





text \<open>
  Claim C3. On a success-tagged \<^verbatim>\<open>MutableResult\<close> whose cell is in the heap,
  \<^verbatim>\<open>InPlaceBind\<close> runs the mutation on the cell, in place: the object is returned as it
  was, the cell holds what the mutation made of its contents, and \<^verbatim>\<open>Value()\<close> reads that.
  Two calls in a row accumulate: the second mutation works on what the first one left.
  For \<^verbatim>\<open>m = MutableResult::Success(0)\<close>, after
  \<^verbatim>\<open>m.InPlaceBind(v += 5).InPlaceBind(v *= 2)\<close> the cell of \<open>m\<close> holds 10.
\<close>

theorem InPlaceBind_success_accumulates:
  "(MutableResult_IsSuccess m \<and> MutableResult.mValue m = Ptr a \<and> a < length h \<longrightarrow>
      MutableResult_InPlaceBind m f h s
        = Inr (m, h[a := fst (f (h ! a) s)], snd (f (h ! a) s)) \<and>
      MutableResult_Value m (h[a := fst (f (h ! a) s)]) = Inr (fst (f (h ! a) s)) \<and>
      InPlaceBind_chain2 m f g h s
        = Inr (m, h[a := fst (g (fst (f (h ! a) s)) (snd (f (h ! a) s)))],
               snd (g (fst (f (h ! a) s)) (snd (f (h ! a) s))))) \<and>
   InPlaceBind_chain2
       (fst (MutableResult_Success (0 :: cpp_int) h0 :: (cpp_int, string) MutableResult \<times> cpp_int heap))
       (\<lambda>v s. (v + 5, s)) (\<lambda>v s. (v * 2, s))
       (snd (MutableResult_Success (0 :: cpp_int) h0 :: (cpp_int, string) MutableResult \<times> cpp_int heap))
       s0
     = Inr (fst (MutableResult_Success 0 h0), h0 @ [10], s0) \<and>
   MutableResult_Value
       (fst (MutableResult_Success (0 :: cpp_int) h0 :: (cpp_int, string) MutableResult \<times> cpp_int heap))
       (h0 @ [10])
     = Inr 10"
proof (intro conjI impI)
  assume "MutableResult_IsSuccess m \<and> MutableResult.mValue m = Ptr a \<and> a < length h"
  then have tag: "MutableResult.mIsSuccess m" and ptr: "MutableResult.mValue m = Ptr a"
    and live: "a < length h"
    by (simp_all add: MutableResult_IsSuccess_def)
  show one: "MutableResult_InPlaceBind m f h s
        = Inr (m, h[a := fst (f (h ! a) s)], snd (f (h ! a) s))"
    by (rule InPlaceBind_live [OF tag ptr live])
  show "MutableResult_Value m (h[a := fst (f (h ! a) s)]) = Inr (fst (f (h ! a) s))"
    using live by (simp add: MutableResult_Value_def ptr)
  have live': "a < length (h[a := fst (f (h ! a) s)])"
    using live by simp
  show "InPlaceBind_chain2 m f g h s
        = Inr (m, h[a := fst (g (fst (f (h ! a) s)) (snd (f (h ! a) s)))],
               snd (g (fst (f (h ! a) s)) (snd (f (h ! a) s))))"
    using live by (simp add: InPlaceBind_chain2_def one InPlaceBind_live [OF tag ptr live'])
next
  show "InPlaceBind_chain2
       (fst (MutableResult_Success (0 :: cpp_int) h0 :: (cpp_int, string) MutableResult \<times> cpp_int heap))
       (\<lambda>v s. (v + 5, s)) (\<lambda>v s. (v * 2, s))
       (snd (MutableResult_Success (0 :: cpp_int) h0 :: (cpp_int, string) MutableResult \<times> cpp_int heap))
       s0
     = Inr (fst (MutableResult_Success 0 h0), h0 @ [10], s0)"
    by (simp add: Success_fresh InPlaceBind_chain2_def MutableResult_InPlaceBind_def)
next
  show "MutableResult_Value
       (fst (MutableResult_Success (0 :: cpp_int) h0 :: (cpp_int, string) MutableResult \<times> cpp_int heap))
       (h0 @ [10])
     = Inr 10"
    by (simp add: Success_fresh MutableResult_Value_def)
qed

theorem InPlaceBind_success_accumulates_witness:
  "MutableResult_IsSuccess
     (fst (MutableResult_Success (0 :: cpp_int) [] :: (cpp_int, string) MutableResult \<times> cpp_int heap)) \<and>
   MutableResult.mValue
     (fst (MutableResult_Success (0 :: cpp_int) [] :: (cpp_int, string) MutableResult \<times> cpp_int heap))
     = Ptr 0 \<and>
   (0 :: nat) < length [0 :: cpp_int] \<and>
   MutableResult_InPlaceBind
     (fst (MutableResult_Success (0 :: cpp_int) [] :: (cpp_int, string) MutableResult \<times> cpp_int heap))
     (\<lambda>v n. (v + 5, Suc n)) [0] (0 :: nat)
     = Inr (fst (MutableResult_Success 0 []), [5], 1) \<and>
   InPlaceBind_chain2
     (fst (MutableResult_Success (0 :: cpp_int) [] :: (cpp_int, string) MutableResult \<times> cpp_int heap))
     (\<lambda>v n. (v + 5, Suc n)) (\<lambda>v n. (v * 2, Suc n)) [0] (0 :: nat)
     = Inr (fst (MutableResult_Success 0 []), [10], 2)"
proof -
  have hyp: "MutableResult_IsSuccess
       (fst (MutableResult_Success (0 :: cpp_int) [] :: (cpp_int, string) MutableResult \<times> cpp_int heap)) \<and>
     MutableResult.mValue
       (fst (MutableResult_Success (0 :: cpp_int) [] :: (cpp_int, string) MutableResult \<times> cpp_int heap))
       = Ptr 0 \<and>
     (0 :: nat) < length [0 :: cpp_int]"
    by (simp add: MutableResult_IsSuccess_def Success_fresh)
  from hyp
    InPlaceBind_success_accumulates
      [of "fst (MutableResult_Success (0 :: cpp_int) [] :: (cpp_int, string) MutableResult \<times> cpp_int heap)"
          "0" "[0]" "\<lambda>v n. (v + 5, Suc n)" "0 :: nat" "\<lambda>v n. (v * 2, Suc n)" "[]" "0 :: nat"]
  show ?thesis
    by simp
qed

text \<open>
  Claim C4. On a failure-tagged \<^verbatim>\<open>MutableResult\<close>, \<^verbatim>\<open>InPlaceBind\<close> does nothing and
  returns the object: the mutation is not invoked, so the heap and the outside state are
  what they were. For \<^verbatim>\<open>m = MutableResult::Failure("err")\<close>, \<^verbatim>\<open>m.InPlaceBind(v += 5)\<close>
  leaves \<^verbatim>\<open>m.IsSuccess() == false\<close> and \<^verbatim>\<open>m.Error() == "err"\<close>.
\<close>

theorem InPlaceBind_failure_noop:
  "(\<not> MutableResult_IsSuccess m \<longrightarrow> MutableResult_InPlaceBind m f h s = Inr (m, h, s)) \<and>
   MutableResult_InPlaceBind (MutableResult_Failure ''err'' :: (cpp_int, string) MutableResult)
       (\<lambda>v n. (v + 5, Suc n)) h0 n0
     = Inr (MutableResult_Failure ''err'', h0, n0) \<and>
   \<not> MutableResult_IsSuccess (MutableResult_Failure ''err'' :: (cpp_int, string) MutableResult) \<and>
   MutableResult_Error (MutableResult_Failure ''err'' :: (cpp_int, string) MutableResult) = ''err''"
  by (simp add: InPlaceBind_failure MutableResult_IsSuccess_def MutableResult_Failure_def
      MutableResult_Error_def)

theorem InPlaceBind_failure_noop_witness:
  "\<not> MutableResult_IsSuccess (MutableResult_Failure ''err'' :: (cpp_int, string) MutableResult) \<and>
   MutableResult_InPlaceBind (MutableResult_Failure ''err'' :: (cpp_int, string) MutableResult)
       (\<lambda>v n. (v + 5, Suc n)) [7, 8] (0::nat)
     = Inr (MutableResult_Failure ''err'', [7, 8], 0)"
  using InPlaceBind_failure_noop
    [of "MutableResult_Failure ''err'' :: (cpp_int, string) MutableResult"
        "\<lambda>v n. (v + 5, Suc n)" "[7, 8]" "0::nat" "[7, 8]" "0::nat"]
  by (simp add: MutableResult_IsSuccess_def MutableResult_Failure_def)

text \<open>
  Claim C5. \<^verbatim>\<open>ReadOnlyBind\<close> is meant to hand the payload over for inspection only.
  What it hands over is \<^verbatim>\<open>*mValue\<close>, a \<^verbatim>\<open>ValueType&\<close>, so a callable that takes the payload
  by reference and assigns to it changes the payload: on \<^verbatim>\<open>MutableResult::Success(0)\<close>,
  \<^verbatim>\<open>ReadOnlyBind\<close> with \<^verbatim>\<open>[](int& v) { v += 5; }\<close> returns the object with its cell holding
  5, where \<^verbatim>\<open>Value()\<close> read 0 before the call and reads 5 after it.
\<close>

theorem ReadOnlyBind_mutates:
  "MutableResult_ReadOnlyBind
       (fst (MutableResult_Success (0 :: cpp_int) [] :: (cpp_int, string) MutableResult \<times> cpp_int heap))
       (\<lambda>v (s :: unit). (v + 5, s))
       (snd (MutableResult_Success (0 :: cpp_int) [] :: (cpp_int, string) MutableResult \<times> cpp_int heap))
       ()
     = Inr (fst (MutableResult_Success 0 []), [5], ()) \<and>
   MutableResult_Value
       (fst (MutableResult_Success (0 :: cpp_int) [] :: (cpp_int, string) MutableResult \<times> cpp_int heap))
       (snd (MutableResult_Success (0 :: cpp_int) [] :: (cpp_int, string) MutableResult \<times> cpp_int heap))
     = Inr 0 \<and>
   MutableResult_Value
       (fst (MutableResult_Success (0 :: cpp_int) [] :: (cpp_int, string) MutableResult \<times> cpp_int heap))
       [5]
     = Inr 5"
  by (simp add: Success_fresh MutableResult_ReadOnlyBind_def MutableResult_Value_def)

text \<open>
  Claim C6, as stated, says that \<^verbatim>\<open>Value()\<close> on a \<^verbatim>\<open>MutableResult\<close> made by \<^verbatim>\<open>Failure\<close>
  returns a default-constructed value. It does not: \<^verbatim>\<open>Failure\<close> stores \<^verbatim>\<open>nullptr\<close> and
  \<^verbatim>\<open>Value()\<close> dereferences it, so on \<^verbatim>\<open>MutableResult<int, std::string>::Failure("err")\<close> the
  read is not that of the value-initialised \<^verbatim>\<open>int\<close>.
\<close>

theorem MutableResult_Value_on_Failure_counterexample:
  "MutableResult_Value (MutableResult_Failure ''err'' :: (cpp_int, string) MutableResult) []
     \<noteq> Inr default"
  by (simp add: MutableResult_Value_def MutableResult_Failure_def)

text \<open>
  Claim C6, amended. On a \<^verbatim>\<open>Result\<close> made by \<^verbatim>\<open>Failure(e)\<close>, \<^verbatim>\<open>Value()\<close> returns the
  value-initialised value; on a \<^verbatim>\<open>Result\<close> made by \<^verbatim>\<open>Success(v)\<close>, \<^verbatim>\<open>Error()\<close> returns the
  value-initialised error; on a \<^verbatim>\<open>MutableResult\<close> made by \<^verbatim>\<open>Success(v)\<close>, \<^verbatim>\<open>Error()\<close> returns
  the value-initialised error; and on a \<^verbatim>\<open>MutableResult\<close> made by \<^verbatim>\<open>Failure(e)\<close>, \<^verbatim>\<open>Value()\<close>
  dereferences the null cell pointer, whatever the heap holds.
\<close>

theorem wrong_slot_reads:
  "Result_Value (Result_Failure e :: ('v::default, 'e) Result) = default \<and>
   Result_Error (Result_Success v :: ('v, 'e::default) Result) = default \<and>
   MutableResult_Error
     (fst (MutableResult_Success v h :: ('v, 'e::default) MutableResult \<times> 'v heap)) = default \<and>
   MutableResult_Value (MutableResult_Failure e :: ('v, 'e) MutableResult) h
     = Inl NullDereference"
  by (simp add: Result_Value_def Result_Failure_def Result_Error_def Result_Success_def
      MutableResult_Error_def Success_fresh MutableResult_Value_def MutableResult_Failure_def)










end
